theory Spec2Isabelle
  imports Main "HOL-Library.AList"
begin

section \<open>Data model\<close>

text \<open>
  A message is the dictionary \<^verbatim>\<open>{"role": ..., "content": ...}\<close> that
  \<^verbatim>\<open>render_main_interface\<close> appends; both values are free-form strings.
\<close>

record message =
  role :: string
  content :: string

text \<open>
  \<^verbatim>\<open>st.session_state.conversations\<close> is a Python dictionary from chat names to
  message lists. Python dictionaries keep insertion order and \<^verbatim>\<open>next(iter(d))\<close>
  reads it, so the dictionary is an association list: \<^verbatim>\<open>d[k] = v\<close> is
  \<^const>\<open>AList.update\<close> (in place when the key exists, appended at the end otherwise),
  \<^verbatim>\<open>del d[k]\<close> is \<^const>\<open>AList.delete\<close>, \<^verbatim>\<open>d[k]\<close> is \<^const>\<open>map_of\<close> and
  \<^verbatim>\<open>len(d)\<close> is \<^const>\<open>length\<close>.
\<close>

type_synonym chats = "(string \<times> message list) list"

text \<open>
  The shelf file \<^verbatim>\<open>DATA_STORE\<close>: a persistent dictionary from string keys to
  pickled values. The program stores one value in it, under \<^verbatim>\<open>"conversations"\<close>.
\<close>

type_synonym shelf = "string \<rightharpoonup> chats"

text \<open>
  The session state together with the shelf file on disk. \<^verbatim>\<open>current_chat\<close> is
  \<^verbatim>\<open>None\<close> or a chat name.
\<close>

record app =
  groq_model :: string
  conversations :: chats
  current_chat :: "string option"
  api_error :: "string option"
  db :: shelf

text \<open>
  The only uncaught exception of the class is the \<^verbatim>\<open>KeyError\<close> of a dictionary
  read; it carries the key that was looked up.
\<close>

datatype error = KeyError "string option"

text \<open>
  The Groq client, seen from \<^verbatim>\<open>generate_response\<close>: called with the model
  identifier and the message list, it gives back the generated text (\<open>Inr\<close>) or raises
  an exception whose \<^verbatim>\<open>str(e)\<close> is the text under \<open>Inl\<close>.
\<close>

type_synonym client = "string \<Rightarrow> message list \<Rightarrow> string + string"

section \<open>Helpers for Python's semantics\<close>

text \<open>Truthiness of a value that is \<^verbatim>\<open>None\<close> or a string: \<^verbatim>\<open>None\<close> and
  \<^verbatim>\<open>""\<close> are false.\<close>

definition truthy :: "string option \<Rightarrow> bool" where
  "truthy v = (case v of None \<Rightarrow> False | Some t \<Rightarrow> t \<noteq> [])"

text \<open>\<^verbatim>\<open>k in d\<close>.\<close>

definition has_key :: "string \<Rightarrow> chats \<Rightarrow> bool" where
  "has_key k d = (k \<in> set (map fst d))"

text \<open>\<^verbatim>\<open>d[k]\<close> where \<^verbatim>\<open>k\<close> may be \<^verbatim>\<open>None\<close>: no chat is stored under
  \<^verbatim>\<open>None\<close>, so that read raises \<^verbatim>\<open>KeyError\<close> too.\<close>

definition getitem :: "chats \<Rightarrow> string option \<Rightarrow> error + message list" where
  "getitem d k =
     (case k of
        None \<Rightarrow> Inl (KeyError None)
      | Some n \<Rightarrow> (case map_of d n of None \<Rightarrow> Inl (KeyError k) | Some ms \<Rightarrow> Inr ms))"

text \<open>\<^verbatim>\<open>next(iter(d)) if d else None\<close>.\<close>

definition first_key :: "chats \<Rightarrow> string option" where
  "first_key d = (case d of [] \<Rightarrow> None | kv # _ \<Rightarrow> Some (fst kv))"

text \<open>The decimal rendering of a natural number, as an f-string prints it.\<close>

definition digit_char :: "nat \<Rightarrow> char" where
  "digit_char n = ''0123456789'' ! n"

fun str_of_nat :: "nat \<Rightarrow> string" where
  "str_of_nat n =
     (if n < 10 then [digit_char n] else str_of_nat (n div 10) @ [digit_char (n mod 10)])"

declare str_of_nat.simps [simp del]

text \<open>
  Reading a decimal rendering back. This is not part of the program: it serves to show
  that \<^const>\<open>str_of_nat\<close> gives different texts for different numbers.
\<close>

definition digit_val :: "char \<Rightarrow> nat" where
  "digit_val c = of_char c - 48"

definition nat_of_str :: "string \<Rightarrow> nat" where
  "nat_of_str cs = foldl (\<lambda>a c. 10 * a + digit_val c) 0 cs"

section \<open>Constants\<close>

definition DEFAULT_MODEL :: string where
  "DEFAULT_MODEL = ''llama3-70b-8192''"

section \<open>The class PhoenixAI\<close>

text \<open>
  Logging and the calls that only draw on the page (\<^verbatim>\<open>st.error\<close>, \<^verbatim>\<open>st.warning\<close>,
  \<^verbatim>\<open>st.markdown\<close>) change nothing of the state and are left out. Whether the shelf
  can be opened, read and written is the environment's choice: every operation that
  touches the shelf takes a flag \<open>io_ok\<close>, false when \<^verbatim>\<open>shelve\<close> raises inside the
  \<^verbatim>\<open>try\<close> block.
\<close>

text \<open>
  \<^verbatim>\<open>setup_state\<close>: each flag says whether the key of that name is in
  \<^verbatim>\<open>st.session_state\<close> already; a key that is absent gets its default, a key that
  is present keeps its value. (The field of an absent key holds no value of the program's;
  it is overwritten here before anything reads it.)
\<close>

definition setup_state :: "bool \<Rightarrow> bool \<Rightarrow> bool \<Rightarrow> bool \<Rightarrow> app \<Rightarrow> app" where
  "setup_state has_groq_model has_conversations has_current_chat has_api_error s =
     (let s1 = (if \<not> has_groq_model then s\<lparr>groq_model := DEFAULT_MODEL\<rparr> else s);
          s2 = (if \<not> has_conversations then s1\<lparr>conversations := []\<rparr> else s1);
          s3 = (if \<not> has_current_chat then s2\<lparr>current_chat := None\<rparr> else s2)
      in if \<not> has_api_error then s3\<lparr>api_error := None\<rparr> else s3)"

text \<open>
  \<^verbatim>\<open>setup_api_client\<close>: \<open>api_key\<close> is \<^verbatim>\<open>os.getenv("GROQ_API_KEY")\<close> and
  \<open>Groq\<close> the client's constructor, which may raise (\<open>Inl\<close> of the exception's
  text). The result is \<^verbatim>\<open>self.client\<close> and the state.
\<close>

definition setup_api_client ::
  "string option \<Rightarrow> (string \<Rightarrow> string + client) \<Rightarrow> app \<Rightarrow> client option \<times> app" where
  "setup_api_client api_key Groq s =
     (if \<not> truthy api_key
      then (None, s\<lparr>api_error := Some ''Missing API key. Please check your .env file.''\<rparr>)
      else (case Groq (the api_key) of
              Inr c \<Rightarrow> (Some c, s)
            | Inl e \<Rightarrow>
                (None, s\<lparr>api_error := Some (''API client initialization failed: '' @ e)\<rparr>)))"

definition load_chat_history :: "bool \<Rightarrow> app \<Rightarrow> app" where
  "load_chat_history io_ok s =
     (if io_ok
      then
        (let s1 = s\<lparr>conversations :=
                      (case db s ''conversations'' of None \<Rightarrow> [] | Some d \<Rightarrow> d)\<rparr>
         in if \<not> truthy (current_chat s1) \<and> conversations s1 \<noteq> []
            then s1\<lparr>current_chat := first_key (conversations s1)\<rparr>
            else s1)
      else s\<lparr>conversations := []\<rparr>)"

definition save_chat_history :: "bool \<Rightarrow> app \<Rightarrow> app" where
  "save_chat_history io_ok s =
     (if io_ok then s\<lparr>db := (db s)(''conversations'' \<mapsto> conversations s)\<rparr> else s)"

definition create_new_chat :: "bool \<Rightarrow> app \<Rightarrow> string \<times> app" where
  "create_new_chat io_ok s =
     (let new_chat_name = ''Chat '' @ str_of_nat (length (conversations s) + 1);
          s1 = s\<lparr>conversations := AList.update new_chat_name [] (conversations s)\<rparr>;
          s2 = s1\<lparr>current_chat := Some new_chat_name\<rparr>
      in (new_chat_name, save_chat_history io_ok s2))"

text \<open>
  \<^verbatim>\<open>rename_chat\<close>: \<^verbatim>\<open>pop(old_name)\<close> raises \<^verbatim>\<open>KeyError\<close> when the key is
  absent, before anything is assigned, so the state at the raise is the state at the call.
\<close>

definition rename_chat :: "bool \<Rightarrow> string \<Rightarrow> string \<Rightarrow> app \<Rightarrow> error + bool \<times> app" where
  "rename_chat io_ok old_name new_name s =
     (if new_name \<noteq> [] \<and> new_name \<noteq> old_name \<and> \<not> has_key new_name (conversations s)
      then
        (case map_of (conversations s) old_name of
           None \<Rightarrow> Inl (KeyError (Some old_name))
         | Some popped \<Rightarrow>
             (let s1 = s\<lparr>conversations :=
                           AList.update new_name popped
                             (AList.delete old_name (conversations s))\<rparr>;
                  s2 = s1\<lparr>current_chat := Some new_name\<rparr>
              in Inr (True, save_chat_history io_ok s2)))
      else Inr (False, s))"

definition delete_chat :: "bool \<Rightarrow> string \<Rightarrow> app \<Rightarrow> bool \<times> app" where
  "delete_chat io_ok chat_name s =
     (if has_key chat_name (conversations s)
      then
        (let s1 = s\<lparr>conversations := AList.delete chat_name (conversations s)\<rparr>;
             s2 = (if current_chat s1 = Some chat_name
                   then s1\<lparr>current_chat := first_key (conversations s1)\<rparr>
                   else s1)
         in (True, save_chat_history io_ok s2))
      else (False, s))"

definition generate_response :: "client option \<Rightarrow> app \<Rightarrow> message list \<Rightarrow> string" where
  "generate_response cl s messages =
     (case cl of
        None \<Rightarrow> ''API client not initialized. Please check your API key.''
      | Some c \<Rightarrow>
          (case c (groq_model s) messages of
             Inr text \<Rightarrow> text
           | Inl e \<Rightarrow> ''Sorry, I encountered an error: '' @ e))"

text \<open>
  \<^verbatim>\<open>render_main_interface\<close>: \<open>prompt\<close> is what \<^verbatim>\<open>st.chat_input\<close> returns
  (\<^verbatim>\<open>None\<close> when nothing was submitted). The display block reads
  \<^verbatim>\<open>conversations[current_chat]\<close> first, and raises if the key is absent. The
  handler saves twice when it has to create a chat, so it takes one flag for each save.
  The method returns nothing; the model returns the reply it has drawn
  (\<^verbatim>\<open>full_response\<close>), so that the reply can be spoken of.
\<close>

definition render_main_interface ::
  "bool \<Rightarrow> bool \<Rightarrow> client option \<Rightarrow> string option \<Rightarrow> app \<Rightarrow> error + string option \<times> app" where
  "render_main_interface io_create io_save cl prompt s =
     (case (if truthy (current_chat s)
            then getitem (conversations s) (current_chat s) else Inr []) of
        Inl e \<Rightarrow> Inl e
      | Inr shown \<Rightarrow>
          if \<not> truthy prompt then Inr (None, s)
          else
            (let s1 = (if \<not> truthy (current_chat s)
                       then snd (create_new_chat io_create s) else s)
             in case getitem (conversations s1) (current_chat s1) of
                  Inl e \<Rightarrow> Inl e
                | Inr messages \<Rightarrow>
                    (let messages1 = messages @ [\<lparr>role = ''user'', content = the prompt\<rparr>];
                         s2 = s1\<lparr>conversations :=
                                   AList.update (the (current_chat s1)) messages1
                                     (conversations s1)\<rparr>;
                         full_response = generate_response cl s2 messages1;
                         messages2 =
                           messages1 @ [\<lparr>role = ''assistant'', content = full_response\<rparr>];
                         s3 = s2\<lparr>conversations :=
                                   AList.update (the (current_chat s2)) messages2
                                     (conversations s2)\<rparr>
                     in Inr (Some full_response, save_chat_history io_save s3))))"

text \<open>
  \<^verbatim>\<open>__init__\<close>, run at the start of every script run: the four flags are those
  of \<^verbatim>\<open>setup_state\<close>, all false in a new session.
\<close>

definition init ::
  "bool \<Rightarrow> bool \<Rightarrow> bool \<Rightarrow> bool \<Rightarrow> string option \<Rightarrow> (string \<Rightarrow> string + client) \<Rightarrow> bool \<Rightarrow>
   app \<Rightarrow> client option \<times> app" where
  "init has_groq_model has_conversations has_current_chat has_api_error api_key Groq io_ok s =
     (let s0 = setup_state has_groq_model has_conversations has_current_chat has_api_error s;
          (cl, s1) = setup_api_client api_key Groq s0
      in (cl, load_chat_history io_ok s1))"

text \<open>
  The invariant of the data model: the current chat, when there is one, is a key of the
  dictionary.
\<close>

definition pointer_ok :: "app \<Rightarrow> bool" where
  "pointer_ok s =
     (current_chat s = None \<or> has_key (the (current_chat s)) (conversations s))"

section \<open>Facts about the dictionary operations\<close>

lemma has_key_map_of: "has_key k d \<longleftrightarrow> map_of d k \<noteq> None"
  by (simp add: has_key_def map_of_eq_None_iff)

lemma has_key_update: "has_key k (AList.update k' v d) \<longleftrightarrow> k = k' \<or> has_key k d"
  by (auto simp: has_key_def dom_update)

lemma has_key_delete: "has_key k (AList.delete k' d) \<longleftrightarrow> k \<noteq> k' \<and> has_key k d"
  by (auto simp: has_key_def delete_keys)

lemma update_fresh_key: "\<not> has_key k d \<Longrightarrow> AList.update k v d = d @ [(k, v)]"
  by (induction d) (auto simp: has_key_def)

lemma first_key_delete:
  "first_key (AList.delete n d) = List.find (\<lambda>k. k \<noteq> n) (map fst d)"
  by (induction d) (auto simp: first_key_def)

lemma first_key_has_key: "first_key d = Some k \<Longrightarrow> has_key k d"
  by (cases d) (auto simp: first_key_def has_key_def)

lemma first_key_hd: "d \<noteq> [] \<Longrightarrow> first_key d = Some (fst (hd d))"
  by (cases d) (simp_all add: first_key_def)

lemma first_key_ok: "first_key d = None \<or> has_key (the (first_key d)) d"
  by (cases d) (auto simp: first_key_def has_key_def)

section \<open>Persistence\<close>

text \<open>
  Claim C7. Let the conversations of a state \<open>s\<close> be saved without an I/O failure, and
  let a load without an I/O failure run in any session \<open>t\<close> that sees the shelf the
  save left (the same session, a later run of the script, or a new session, whatever
  conversations it holds at that moment). The load gives \<open>t\<close> the dictionary that was
  saved: the same names in the same order, each with the same message list. Saving again
  after that load leaves that dictionary on the shelf. The shelf is taken to give back,
  under a key, the value that was stored under it: the pickling is the standard library's
  and no part of the program.
\<close>

theorem save_load_round_trip:
  "db t = db (save_chat_history True s) \<Longrightarrow>
   conversations (load_chat_history True t) = conversations s \<and>
   db (save_chat_history True (load_chat_history True t)) ''conversations''
     = Some (conversations s)"
  by (simp add: load_chat_history_def save_chat_history_def Let_def)

text \<open>
  A session that holds the chat "Z" loads the shelf that another state, holding "B" and
  "A", has saved.
\<close>

theorem save_load_round_trip_witness:
  "db \<lparr>groq_model = DEFAULT_MODEL, conversations = [(''Z'', [])],
       current_chat = Some ''Z'', api_error = None,
       db = [''conversations'' \<mapsto>
         [(''B'', [\<lparr>role = ''user'', content = ''hi''\<rparr>,
                          \<lparr>role = ''assistant'', content = ''hello''\<rparr>]),
                 (''A'', [])]]\<rparr>
     = db (save_chat_history True
      \<lparr>groq_model = DEFAULT_MODEL,
       conversations =
         [(''B'', [\<lparr>role = ''user'', content = ''hi''\<rparr>,
                          \<lparr>role = ''assistant'', content = ''hello''\<rparr>]),
                 (''A'', [])],
       current_chat = Some ''B'', api_error = None, db = Map.empty\<rparr>) \<and>
   conversations (load_chat_history True
      \<lparr>groq_model = DEFAULT_MODEL, conversations = [(''Z'', [])],
       current_chat = Some ''Z'', api_error = None,
       db = [''conversations'' \<mapsto>
         [(''B'', [\<lparr>role = ''user'', content = ''hi''\<rparr>,
                          \<lparr>role = ''assistant'', content = ''hello''\<rparr>]),
                 (''A'', [])]]\<rparr>)
     = [(''B'', [\<lparr>role = ''user'', content = ''hi''\<rparr>,
                 \<lparr>role = ''assistant'', content = ''hello''\<rparr>]),
        (''A'', [])]"
proof -
  have h: "db \<lparr>groq_model = DEFAULT_MODEL, conversations = [(''Z'', [])],
       current_chat = Some ''Z'', api_error = None,
       db = [''conversations'' \<mapsto>
         [(''B'', [\<lparr>role = ''user'', content = ''hi''\<rparr>,
                          \<lparr>role = ''assistant'', content = ''hello''\<rparr>]),
                 (''A'', [])]]\<rparr>
     = db (save_chat_history True
      \<lparr>groq_model = DEFAULT_MODEL,
       conversations =
         [(''B'', [\<lparr>role = ''user'', content = ''hi''\<rparr>,
                          \<lparr>role = ''assistant'', content = ''hello''\<rparr>]),
                 (''A'', [])],
       current_chat = Some ''B'', api_error = None, db = Map.empty\<rparr>)"
    by (simp add: save_chat_history_def)
  from h save_load_round_trip [OF h] show ?thesis
    by simp
qed

text \<open>
  Claim C10. A load that succeeds with no current chat (\<^verbatim>\<open>None\<close>) and a non-empty
  stored dictionary takes the stored dictionary and makes its first key the current chat.
  After any successful load the current chat is not \<^verbatim>\<open>None\<close> while the dictionary
  is non-empty. So it is after \<^verbatim>\<open>__init__\<close> at startup, when the session has
  no \<^verbatim>\<open>current_chat\<close> key yet and \<^verbatim>\<open>setup_state\<close> makes it \<^verbatim>\<open>None\<close>.
\<close>

theorem load_chat_history_sets_current:
  "(current_chat s = None \<and> db s ''conversations'' = Some d \<and> d \<noteq> [] \<longrightarrow>
      conversations (load_chat_history True s) = d \<and>
      current_chat (load_chat_history True s) = Some (fst (hd d))) \<and>
   (conversations (load_chat_history True s) \<noteq> [] \<longrightarrow>
      current_chat (load_chat_history True s) \<noteq> None) \<and>
   (db s ''conversations'' = Some d \<and> d \<noteq> [] \<longrightarrow>
      current_chat (snd (init m c False e api_key Groq True s)) = Some (fst (hd d)))"
proof (intro conjI impI)
  assume a: "current_chat s = None \<and> db s ''conversations'' = Some d \<and> d \<noteq> []"
  then show "conversations (load_chat_history True s) = d"
    by (simp add: load_chat_history_def Let_def)
  from a show "current_chat (load_chat_history True s) = Some (fst (hd d))"
    by (simp add: load_chat_history_def Let_def truthy_def first_key_hd)
next
  assume "conversations (load_chat_history True s) \<noteq> []"
  then show "current_chat (load_chat_history True s) \<noteq> None"
    by (auto simp: load_chat_history_def Let_def truthy_def first_key_hd
             split: if_splits option.splits)
next
  assume a: "db s ''conversations'' = Some d \<and> d \<noteq> []"
  then show "current_chat (snd (init m c False e api_key Groq True s)) = Some (fst (hd d))"
    by (auto simp: init_def setup_state_def setup_api_client_def load_chat_history_def
          Let_def truthy_def first_key_hd split: sum.splits option.splits)
qed

text \<open>The stored dictionary \<^verbatim>\<open>{"B": [], "A": []}\<close>, loaded into a fresh session.\<close>

theorem load_chat_history_sets_current_witness:
  "current_chat (load_chat_history True
     \<lparr>groq_model = DEFAULT_MODEL, conversations = [], current_chat = None, api_error = None,
      db = [''conversations'' \<mapsto> [(''B'', []), (''A'', [])]]\<rparr>) = Some ''B''"
  using load_chat_history_sets_current
    [of "\<lparr>groq_model = DEFAULT_MODEL, conversations = [], current_chat = None,
          api_error = None, db = [''conversations'' \<mapsto> [(''B'', []), (''A'', [])]]\<rparr>"
        "[(''B'', []), (''A'', [])]"]
  by simp

section \<open>Deleting a chat\<close>

text \<open>
  Claim C5. \<^verbatim>\<open>delete_chat\<close> returns false and changes nothing when the name is
  absent. When it is present it returns true, the chat is removed and the others keep
  their order and messages, and the result is saved. If the deleted chat was the current
  one, the current chat becomes the first remaining key in iteration order, or
  \<^verbatim>\<open>None\<close> when none remains; otherwise it is unchanged. With current = "A":
  deleting "A" from {"A", "B"} leaves current = "B", and from {"A"} leaves \<^verbatim>\<open>None\<close>.
\<close>

theorem delete_chat_repoints:
  "(\<not> has_key n (conversations s) \<longrightarrow> delete_chat io n s = (False, s)) \<and>
   (has_key n (conversations s) \<longrightarrow>
      fst (delete_chat io n s) = True \<and>
      map fst (conversations (snd (delete_chat io n s)))
        = removeAll n (map fst (conversations s)) \<and>
      (\<forall>k. map_of (conversations (snd (delete_chat io n s))) k
             = (if k = n then None else map_of (conversations s) k)) \<and>
      current_chat (snd (delete_chat io n s))
        = (if current_chat s = Some n
           then List.find (\<lambda>k. k \<noteq> n) (map fst (conversations s))
           else current_chat s) \<and>
      db (snd (delete_chat io n s))
        = (if io then (db s)(''conversations'' \<mapsto> conversations (snd (delete_chat io n s)))
           else db s)) \<and>
   current_chat (snd (delete_chat io ''A''
       (s\<lparr>conversations := [(''A'', a), (''B'', b)], current_chat := Some ''A''\<rparr>)))
     = Some ''B'' \<and>
   current_chat (snd (delete_chat io ''A''
       (s\<lparr>conversations := [(''A'', a)], current_chat := Some ''A''\<rparr>)))
     = None"
proof (intro conjI impI allI)
  assume "\<not> has_key n (conversations s)"
  then show "delete_chat io n s = (False, s)"
    by (simp add: delete_chat_def)
next
  assume h: "has_key n (conversations s)"
  show "fst (delete_chat io n s) = True"
    using h by (simp add: delete_chat_def Let_def)
  show "map fst (conversations (snd (delete_chat io n s)))
        = removeAll n (map fst (conversations s))"
    using h by (simp add: delete_chat_def Let_def save_chat_history_def delete_keys)
  show "current_chat (snd (delete_chat io n s))
        = (if current_chat s = Some n
           then List.find (\<lambda>k. k \<noteq> n) (map fst (conversations s))
           else current_chat s)"
    using h by (simp add: delete_chat_def Let_def save_chat_history_def first_key_delete)
  show "db (snd (delete_chat io n s))
        = (if io then (db s)(''conversations'' \<mapsto> conversations (snd (delete_chat io n s)))
           else db s)"
    using h by (simp add: delete_chat_def Let_def save_chat_history_def)
  fix k
  show "map_of (conversations (snd (delete_chat io n s))) k
             = (if k = n then None else map_of (conversations s) k)"
    using h by (simp add: delete_chat_def Let_def save_chat_history_def delete_conv)
next
  show "current_chat (snd (delete_chat io ''A''
       (s\<lparr>conversations := [(''A'', a), (''B'', b)], current_chat := Some ''A''\<rparr>)))
     = Some ''B''"
    by (simp add: delete_chat_def Let_def save_chat_history_def has_key_def first_key_def)
  show "current_chat (snd (delete_chat io ''A''
       (s\<lparr>conversations := [(''A'', a)], current_chat := Some ''A''\<rparr>)))
     = None"
    by (simp add: delete_chat_def Let_def save_chat_history_def has_key_def first_key_def)
qed

text \<open>Deleting an absent name, and deleting the current chat "A" of {"A", "B"}.\<close>

theorem delete_chat_repoints_witness:
  "delete_chat True ''B''
     \<lparr>groq_model = DEFAULT_MODEL, conversations = [(''A'', [])], current_chat = Some ''A'',
      api_error = None, db = Map.empty\<rparr>
   = (False, \<lparr>groq_model = DEFAULT_MODEL, conversations = [(''A'', [])],
              current_chat = Some ''A'', api_error = None, db = Map.empty\<rparr>) \<and>
   has_key ''A'' [(''A'', []), (''B'', [])] \<and>
   current_chat (snd (delete_chat True ''A''
     \<lparr>groq_model = DEFAULT_MODEL, conversations = [(''A'', []), (''B'', [])],
      current_chat = Some ''A'', api_error = None, db = Map.empty\<rparr>)) = Some ''B'' \<and>
   map fst (conversations (snd (delete_chat True ''A''
     \<lparr>groq_model = DEFAULT_MODEL, conversations = [(''A'', []), (''B'', [])],
      current_chat = Some ''A'', api_error = None, db = Map.empty\<rparr>))) = [''B'']"
  using delete_chat_repoints
    [of "''B''" "\<lparr>groq_model = DEFAULT_MODEL, conversations = [(''A'', [])],
                  current_chat = Some ''A'', api_error = None, db = Map.empty\<rparr>" True]
    delete_chat_repoints
    [of "''A''" "\<lparr>groq_model = DEFAULT_MODEL, conversations = [(''A'', []), (''B'', [])],
                  current_chat = Some ''A'', api_error = None, db = Map.empty\<rparr>" True]
  by (simp add: has_key_def)

section \<open>Creating a chat\<close>

lemma create_new_chat_name:
  "fst (create_new_chat io s) = ''Chat '' @ str_of_nat (length (conversations s) + 1)"
  by (simp add: create_new_chat_def Let_def)



lemma create_new_chat_fresh:
  "\<not> has_key (fst (create_new_chat io s)) (conversations s) \<Longrightarrow>
   conversations (snd (create_new_chat io s))
     = conversations s @ [(fst (create_new_chat io s), [])]"
  by (simp add: create_new_chat_def save_chat_history_def Let_def update_fresh_key)

lemma create_new_chat_saved:
  "db (snd (create_new_chat True s)) ''conversations''
     = Some (conversations (snd (create_new_chat True s)))"
  by (simp add: create_new_chat_def save_chat_history_def Let_def)

lemma digit_val_digit_char: "d < 10 \<Longrightarrow> digit_val (digit_char d) = d"
proof -
  assume "d < 10"
  then have "d = 0 \<or> d = 1 \<or> d = 2 \<or> d = 3 \<or> d = 4 \<or> d = 5 \<or> d = 6 \<or> d = 7 \<or>
      d = 8 \<or> d = 9"
    by arith
  then show ?thesis
    by (elim disjE) (simp_all add: digit_char_def digit_val_def)
qed

lemma nat_of_str_of_nat: "nat_of_str (str_of_nat n) = n"
proof (induction n rule: str_of_nat.induct)
  case (1 n)
  show ?case
  proof (cases "n < 10")
    case True
    then show ?thesis
      by (simp add: str_of_nat.simps [of n] nat_of_str_def digit_val_digit_char)
  next
    case False
    with 1 have "nat_of_str (str_of_nat (n div 10)) = n div 10" by simp
    with False show ?thesis
      by (simp add: str_of_nat.simps [of n] nat_of_str_def digit_val_digit_char)
  qed
qed

lemma str_of_nat_inj: "str_of_nat m = str_of_nat n \<Longrightarrow> m = n"
  by (metis nat_of_str_of_nat)

text \<open>
  Two calls in a row give two new chats with different names when neither name is a key
  before the first call.
\<close>

lemma create_new_chat_twice:
  assumes "\<not> has_key (''Chat '' @ str_of_nat (length (conversations s) + 1)) (conversations s)"
    and "\<not> has_key (''Chat '' @ str_of_nat (length (conversations s) + 2)) (conversations s)"
  shows "fst (create_new_chat io1 s) = ''Chat '' @ str_of_nat (length (conversations s) + 1) \<and>
     fst (create_new_chat io2 (snd (create_new_chat io1 s)))
       = ''Chat '' @ str_of_nat (length (conversations s) + 2) \<and>
     fst (create_new_chat io1 s) \<noteq> fst (create_new_chat io2 (snd (create_new_chat io1 s))) \<and>
     conversations (snd (create_new_chat io2 (snd (create_new_chat io1 s))))
       = conversations s @
         [(''Chat '' @ str_of_nat (length (conversations s) + 1), []),
          (''Chat '' @ str_of_nat (length (conversations s) + 2), [])]"
proof -
  let ?n1 = "''Chat '' @ str_of_nat (length (conversations s) + 1)"
  let ?n2 = "''Chat '' @ str_of_nat (length (conversations s) + 2)"
  let ?s1 = "snd (create_new_chat io1 s)"
  have ne: "?n1 \<noteq> ?n2"
    using str_of_nat_inj [of "length (conversations s) + 1" "length (conversations s) + 2"]
    by auto
  have c1: "conversations ?s1 = conversations s @ [(?n1, [])]"
    using assms(1)
    by (simp add: create_new_chat_def save_chat_history_def Let_def update_fresh_key)
  have n2: "fst (create_new_chat io2 ?s1) = ?n2"
    by (simp add: create_new_chat_name c1)
  have fresh2: "\<not> has_key ?n2 (conversations ?s1)"
    using assms(2) ne by (auto simp: c1 has_key_def)
  have c2: "conversations (snd (create_new_chat io2 ?s1)) = conversations ?s1 @ [(?n2, [])]"
    using fresh2 create_new_chat_fresh [of io2 ?s1] by (simp add: n2)
  show ?thesis
    using ne n2 c1 c2 by (simp add: create_new_chat_name)
qed

text \<open>
  Claim C2. \<^verbatim>\<open>create_new_chat\<close> names the chat "Chat N" with N one more than the
  number of chats, stores an empty list under that name, saves and returns the name, and
  two calls in a row give "Chat N" and "Chat N+1" when neither is a key yet (the lemmas
  above). The name is not checked against the dictionary. Where "Chat N" is
  already a key, as after deleting "Chat 1" of "Chat 1" and "Chat 2", the assignment
  replaces that chat's messages by the empty list and the count stays the same: below,
  two calls in a row both return "Chat 2", the dictionary holds one chat after them,
  and the messages that "Chat 2" held are gone.
\<close>

theorem create_new_chat_reuses_name:
  "create_new_chat True
     \<lparr>groq_model = DEFAULT_MODEL,
      conversations =
        [(''Chat 2'', [\<lparr>role = ''user'', content = ''hi''\<rparr>,
                       \<lparr>role = ''assistant'', content = ''hello''\<rparr>])],
      current_chat = Some ''Chat 2'', api_error = None, db = Map.empty\<rparr>
   = (''Chat 2'',
      \<lparr>groq_model = DEFAULT_MODEL, conversations = [(''Chat 2'', [])],
       current_chat = Some ''Chat 2'', api_error = None,
       db = [''conversations'' \<mapsto> [(''Chat 2'', [])]]\<rparr>) \<and>
   create_new_chat True
     \<lparr>groq_model = DEFAULT_MODEL, conversations = [(''Chat 2'', [])],
      current_chat = Some ''Chat 2'', api_error = None,
      db = [''conversations'' \<mapsto> [(''Chat 2'', [])]]\<rparr>
   = (''Chat 2'',
      \<lparr>groq_model = DEFAULT_MODEL, conversations = [(''Chat 2'', [])],
       current_chat = Some ''Chat 2'', api_error = None,
       db = [''conversations'' \<mapsto> [(''Chat 2'', [])]]\<rparr>)"
  by (simp add: create_new_chat_def save_chat_history_def str_of_nat.simps digit_char_def
        Let_def)

section \<open>Renaming a chat\<close>

lemma rename_chat_rejected:
  "new = [] \<or> new = old \<or> has_key new (conversations s) \<Longrightarrow>
   rename_chat io old new s = Inr (False, s)"
  by (auto simp: rename_chat_def)

lemma rename_chat_absent:
  "new \<noteq> [] \<Longrightarrow> new \<noteq> old \<Longrightarrow> \<not> has_key new (conversations s) \<Longrightarrow>
   \<not> has_key old (conversations s) \<Longrightarrow>
   rename_chat io old new s = Inl (KeyError (Some old))"
  by (simp add: rename_chat_def has_key_map_of)

text \<open>
  Claim C3. \<^verbatim>\<open>rename_chat\<close> returns false and changes nothing when the new name
  is empty, equals the old one or is already a key (\<open>rename_chat_rejected\<close>). It
  does not test that the old name is a key: with an acceptable new name and an absent old
  name, \<^verbatim>\<open>pop\<close> raises \<^verbatim>\<open>KeyError\<close> (\<open>rename_chat_absent\<close>). Below, renaming
  "X" to "Y" in {"A": []} raises instead of returning false.
\<close>

theorem rename_chat_absent_raises:
  "rename_chat True ''X'' ''Y''
     \<lparr>groq_model = DEFAULT_MODEL, conversations = [(''A'', [])], current_chat = Some ''A'',
      api_error = None, db = Map.empty\<rparr>
   = Inl (KeyError (Some ''X''))"
  by (simp add: rename_chat_def has_key_def)

text \<open>
  Claim C4, as stated, fails: the current chat is set to the new name whatever it was.
  With chats "A" and "B" and current = "B", renaming "A" to "C" makes "C" current.
\<close>

theorem rename_keeps_other_pointer_counterexample:
  "rename_chat True ''A'' ''C''
     \<lparr>groq_model = DEFAULT_MODEL, conversations = [(''A'', []), (''B'', [])],
      current_chat = Some ''B'', api_error = None, db = Map.empty\<rparr>
   = Inr (True,
       \<lparr>groq_model = DEFAULT_MODEL, conversations = [(''B'', []), (''C'', [])],
        current_chat = Some ''C'', api_error = None,
        db = [''conversations'' \<mapsto> [(''B'', []), (''C'', [])]]\<rparr>)"
  by (simp add: rename_chat_def has_key_def save_chat_history_def Let_def)

text \<open>
  Claim C4, amended. On every successful \<^verbatim>\<open>rename_chat\<close> (the new name non-empty,
  different from the old one and not a key, the old name a key) the message list moves
  unchanged under the new key, which goes to the end of the iteration order, the old key
  is gone, every other chat keeps its messages and its place, the result is saved, and
  the current chat becomes the new name, whether or not it was the old name before.
\<close>

theorem rename_chat_moves_messages:
  assumes "new \<noteq> []" and "new \<noteq> old"
    and "\<not> has_key new (conversations s)"
    and "map_of (conversations s) old = Some ms"
  shows "\<exists>s'. rename_chat io old new s = Inr (True, s') \<and>
     map_of (conversations s') new = Some ms \<and>
     map_of (conversations s') old = None \<and>
     (\<forall>k. k \<noteq> old \<and> k \<noteq> new \<longrightarrow>
        map_of (conversations s') k = map_of (conversations s) k) \<and>
     map fst (conversations s') = removeAll old (map fst (conversations s)) @ [new] \<and>
     current_chat s' = Some new \<and>
     (io \<longrightarrow> db s' ''conversations'' = Some (conversations s'))"
proof -
  let ?d = "AList.delete old (conversations s)"
  have fresh: "\<not> has_key new ?d"
    using assms(3) by (simp add: has_key_delete)
  have upd: "AList.update new ms ?d = ?d @ [(new, ms)]"
    using fresh by (rule update_fresh_key)
  have run: "rename_chat io old new s =
      Inr (True, save_chat_history io
        (s\<lparr>conversations := ?d @ [(new, ms)], current_chat := Some new\<rparr>))"
    using assms by (simp add: rename_chat_def Let_def upd)
  have new_none: "map_of ?d new = None"
    using fresh by (simp add: has_key_map_of)
  let ?s' = "save_chat_history io
        (s\<lparr>conversations := ?d @ [(new, ms)], current_chat := Some new\<rparr>)"
  have cs: "conversations ?s' = ?d @ [(new, ms)]"
    by (simp add: save_chat_history_def)
  have 1: "map_of (conversations ?s') new = Some ms"
    by (simp add: cs new_none map_add_def)
  have 2: "map_of (conversations ?s') old = None"
    using assms(2) by (simp add: cs delete_conv map_add_def)
  have 3: "\<forall>k. k \<noteq> old \<and> k \<noteq> new \<longrightarrow>
        map_of (conversations ?s') k = map_of (conversations s) k"
    by (auto simp: cs delete_conv map_add_def split: option.splits)
  have 4: "map fst (conversations ?s') = removeAll old (map fst (conversations s)) @ [new]"
    by (simp add: cs delete_keys)
  have 5: "current_chat ?s' = Some new"
    by (simp add: save_chat_history_def)
  have 6: "io \<longrightarrow> db ?s' ''conversations'' = Some (conversations ?s')"
    by (simp add: save_chat_history_def)
  from run 1 2 3 4 5 6 show ?thesis by blast
qed

text \<open>Renaming "A" to "C" while "B" is current.\<close>

theorem rename_chat_moves_messages_witness:
  "\<exists>s'. rename_chat True ''A'' ''C''
      \<lparr>groq_model = DEFAULT_MODEL,
       conversations = [(''A'', [\<lparr>role = ''user'', content = ''hi''\<rparr>]), (''B'', [])],
       current_chat = Some ''B'', api_error = None, db = Map.empty\<rparr> = Inr (True, s') \<and>
     map_of (conversations s') ''C'' = Some [\<lparr>role = ''user'', content = ''hi''\<rparr>] \<and>
     map fst (conversations s') = [''B'', ''C''] \<and>
     current_chat s' = Some ''C''"
  using rename_chat_moves_messages
    [of "''C''" "''A''"
        "\<lparr>groq_model = DEFAULT_MODEL,
          conversations = [(''A'', [\<lparr>role = ''user'', content = ''hi''\<rparr>]), (''B'', [])],
          current_chat = Some ''B'', api_error = None, db = Map.empty\<rparr>"
        "[\<lparr>role = ''user'', content = ''hi''\<rparr>]" True]
  by (simp add: has_key_def) (elim exE conjE, intro exI conjI, assumption+)

section \<open>Sending a message\<close>

lemma getitem_Some: "map_of d c = Some ms \<Longrightarrow> getitem d (Some c) = Inr ms"
  by (simp add: getitem_def)



text \<open>
  The handler on a selected chat (the current name is truthy and a key), and on no
  selected chat, where it creates one first.
\<close>

lemma render_selected:
  assumes "current_chat s = Some c" "c \<noteq> []" "map_of (conversations s) c = Some ms"
    and "p \<noteq> []"
  shows "render_main_interface io1 io2 cl (Some p) s =
     Inr (Some (generate_response cl s (ms @ [\<lparr>role = ''user'', content = p\<rparr>])),
          save_chat_history io2 (s\<lparr>conversations :=
             AList.update c
               (ms @ [\<lparr>role = ''user'', content = p\<rparr>,
                      \<lparr>role = ''assistant'',
                       content = generate_response cl s (ms @ [\<lparr>role = ''user'', content = p\<rparr>])\<rparr>])
               (conversations s)\<rparr>))"
proof -
  have g: "\<And>d. generate_response cl (s\<lparr>conversations := d\<rparr>) = generate_response cl s"
    by (rule ext) (simp add: generate_response_def split: option.splits)
  show ?thesis
    using assms
    by (simp add: render_main_interface_def truthy_def getitem_Some Let_def g)
qed



text \<open>
  Claim C6. After a successful send of a prompt (the claim's "hi") on a selected chat
  whose list is empty, that chat's list is exactly the user message followed by the
  assistant message with the client's reply, in that order; the other chats and the
  current chat are unchanged and the result is saved. A chat is selected when
  \<^verbatim>\<open>current_chat\<close> is truthy, as the handler tests it.
\<close>

theorem send_message_appends_user_then_assistant:
  assumes "current_chat s = Some c" and "c \<noteq> []"
    and "map_of (conversations s) c = Some []"
    and "p \<noteq> []"
    and "cl (groq_model s) [\<lparr>role = ''user'', content = p\<rparr>] = Inr reply"
  shows "\<exists>s'. render_main_interface io1 io2 (Some cl) (Some p) s = Inr (Some reply, s') \<and>
     map_of (conversations s') c
       = Some [\<lparr>role = ''user'', content = p\<rparr>, \<lparr>role = ''assistant'', content = reply\<rparr>] \<and>
     map fst (conversations s') = map fst (conversations s) \<and>
     (\<forall>k. k \<noteq> c \<longrightarrow> map_of (conversations s') k = map_of (conversations s) k) \<and>
     current_chat s' = Some c \<and>
     (io2 \<longrightarrow> db s' ''conversations'' = Some (conversations s'))"
proof -
  have r: "generate_response (Some cl) s [\<lparr>role = ''user'', content = p\<rparr>] = reply"
    using assms(5) by (simp add: generate_response_def)
  have k: "has_key c (conversations s)"
    using assms(3) by (simp add: has_key_map_of)
  show ?thesis
    using render_selected [OF assms(1-4), of io1 io2 "Some cl"] k assms(1)
    by (simp add: r save_chat_history_def update_conv' update_keys has_key_def)
qed

text \<open>A client that answers "hello", on the empty chat "A".\<close>

theorem send_message_appends_user_then_assistant_witness:
  "\<exists>s'. render_main_interface True True (Some (\<lambda>m ms. Inr ''hello'')) (Some ''hi'')
      \<lparr>groq_model = DEFAULT_MODEL, conversations = [(''A'', [])], current_chat = Some ''A'',
       api_error = None, db = Map.empty\<rparr> = Inr (Some ''hello'', s') \<and>
     map_of (conversations s') ''A''
       = Some [\<lparr>role = ''user'', content = ''hi''\<rparr>,
               \<lparr>role = ''assistant'', content = ''hello''\<rparr>]"
  using send_message_appends_user_then_assistant
    [of "\<lparr>groq_model = DEFAULT_MODEL, conversations = [(''A'', [])],
          current_chat = Some ''A'', api_error = None, db = Map.empty\<rparr>"
        "''A''" "''hi''" "\<lambda>m ms. Inr ''hello''" "''hello''" True True]
  by auto



text \<open>
  Claim C1, as stated, fails: a failed call's error text is appended as the assistant's
  message and saved. With the client absent, "hi" sent on the empty chat "A" leaves two
  messages in the session and on the shelf.
\<close>

theorem failed_turn_not_stored_counterexample:
  "render_main_interface True True None (Some ''hi'')
     \<lparr>groq_model = DEFAULT_MODEL, conversations = [(''A'', [])], current_chat = Some ''A'',
      api_error = None, db = Map.empty\<rparr>
   = Inr (Some ''API client not initialized. Please check your API key.'',
       \<lparr>groq_model = DEFAULT_MODEL,
        conversations =
          [(''A'', [\<lparr>role = ''user'', content = ''hi''\<rparr>,
                    \<lparr>role = ''assistant'',
                     content = ''API client not initialized. Please check your API key.''\<rparr>])],
        current_chat = Some ''A'', api_error = None,
        db = [''conversations'' \<mapsto>
          [(''A'', [\<lparr>role = ''user'', content = ''hi''\<rparr>,
                    \<lparr>role = ''assistant'',
                     content = ''API client not initialized. Please check your API key.''\<rparr>])]]\<rparr>)"
  by (simp add: render_main_interface_def getitem_def truthy_def generate_response_def
        save_chat_history_def Let_def)

text \<open>
  Claim C1, amended. On a selected chat, when the call fails (the client is absent, or it
  raises), the send raises nothing and replies with a synthesized error text: the fixed
  text for an absent client, "Sorry, I encountered an error: " and the exception's text
  otherwise. The turn is stored as a successful one is: the user message, then an
  assistant message whose content is the error text, and the result is saved.
\<close>

theorem failed_turn_stores_error_text:
  assumes "current_chat s = Some c" and "c \<noteq> []"
    and "map_of (conversations s) c = Some ms"
    and "p \<noteq> []"
    and "cl = None \<and> err = ''API client not initialized. Please check your API key.'' \<or>
         (\<exists>f e. cl = Some f \<and>
            f (groq_model s) (ms @ [\<lparr>role = ''user'', content = p\<rparr>]) = Inl e \<and>
            err = ''Sorry, I encountered an error: '' @ e)"
  shows "\<exists>s'. render_main_interface io1 io2 cl (Some p) s = Inr (Some err, s') \<and>
     map_of (conversations s') c
       = Some (ms @ [\<lparr>role = ''user'', content = p\<rparr>,
                     \<lparr>role = ''assistant'', content = err\<rparr>]) \<and>
     (io2 \<longrightarrow> db s' ''conversations'' = Some (conversations s'))"
proof -
  have r: "generate_response cl s (ms @ [\<lparr>role = ''user'', content = p\<rparr>]) = err"
    using assms(5) by (auto simp: generate_response_def)
  show ?thesis
    using render_selected [OF assms(1-4), of io1 io2 cl]
    by (simp add: r save_chat_history_def update_conv')
qed

text \<open>A client that raises "timeout", on the empty chat "A".\<close>

theorem failed_turn_stores_error_text_witness:
  "\<exists>s'. render_main_interface True True (Some (\<lambda>m ms. Inl ''timeout'')) (Some ''hi'')
      \<lparr>groq_model = DEFAULT_MODEL, conversations = [(''A'', [])], current_chat = Some ''A'',
       api_error = None, db = Map.empty\<rparr>
       = Inr (Some ''Sorry, I encountered an error: timeout'', s') \<and>
     map_of (conversations s') ''A''
       = Some [\<lparr>role = ''user'', content = ''hi''\<rparr>,
               \<lparr>role = ''assistant'', content = ''Sorry, I encountered an error: timeout''\<rparr>] \<and>
     db s' ''conversations'' = Some (conversations s')"
  using failed_turn_stores_error_text
    [of "\<lparr>groq_model = DEFAULT_MODEL, conversations = [(''A'', [])],
          current_chat = Some ''A'', api_error = None, db = Map.empty\<rparr>"
        "''A''" "[]" "''hi''" "Some (\<lambda>m ms. Inl ''timeout'')"
        "''Sorry, I encountered an error: timeout''" True True]
  by simp

section \<open>The current chat is a key\<close>

lemma save_chat_history_session:
  "conversations (save_chat_history io s) = conversations s"
  "current_chat (save_chat_history io s) = current_chat s"
  by (simp_all add: save_chat_history_def)

lemma pointer_ok_save: "pointer_ok (save_chat_history io s) = pointer_ok s"
  by (simp add: pointer_ok_def save_chat_history_session)

lemma pointer_ok_create: "pointer_ok (snd (create_new_chat io s))"
  by (simp add: create_new_chat_def Let_def pointer_ok_save)
     (simp add: pointer_ok_def has_key_update)

lemma pointer_ok_rename:
  "rename_chat io old new s = Inr (b, s') \<Longrightarrow> pointer_ok s \<Longrightarrow> pointer_ok s'"
  by (auto simp: rename_chat_def Let_def pointer_ok_def has_key_update
           save_chat_history_session split: if_splits option.splits)

lemma pointer_ok_delete: "pointer_ok s \<Longrightarrow> pointer_ok (snd (delete_chat io n s))"
  using first_key_ok [of "AList.delete n (conversations s)"]
  by (auto simp: delete_chat_def Let_def pointer_ok_def has_key_delete
           save_chat_history_session)

lemma pointer_ok_update:
  "pointer_ok s \<Longrightarrow> pointer_ok (s\<lparr>conversations := AList.update k v (conversations s)\<rparr>)"
  by (auto simp: pointer_ok_def has_key_update)

lemma pointer_ok_render:
  assumes "render_main_interface io1 io2 cl prompt s = Inr (r, s')" and "pointer_ok s"
  shows "pointer_ok s'"
proof (cases "truthy prompt")
  case False
  with assms show ?thesis
    by (auto simp: render_main_interface_def split: if_splits sum.splits)
next
  case True
  define s1 where "s1 = (if \<not> truthy (current_chat s) then snd (create_new_chat io1 s) else s)"
  have ok1: "pointer_ok s1"
    using assms(2) by (simp add: s1_def pointer_ok_create)
  obtain v w where "s' = save_chat_history io2
      (s1\<lparr>conversations := AList.update (the (current_chat s1)) v (conversations s1)\<rparr>
         \<lparr>conversations := AList.update (the (current_chat s1)) w
             (AList.update (the (current_chat s1)) v (conversations s1))\<rparr>)"
    using assms(1) True
    by (auto simp: render_main_interface_def Let_def s1_def split: if_splits sum.splits)
  then have "s' = save_chat_history io2
      (s1\<lparr>conversations := AList.update (the (current_chat s1)) w (conversations s1)\<rparr>)"
    by simp
  then show ?thesis
    using ok1 by (simp add: pointer_ok_save pointer_ok_update)
qed

lemma pointer_ok_load_startup:
  "current_chat s = None \<Longrightarrow> pointer_ok (load_chat_history io s)"
  using first_key_ok [of "the (db s ''conversations'')"]
  by (auto simp: load_chat_history_def Let_def pointer_ok_def truthy_def
           split: option.splits)

text \<open>
  Claim C9. Creating, renaming, deleting and sending keep the current chat a key of the
  dictionary (the lemmas above), and so does a load with no current chat. A load with a
  current chat does not: it replaces the dictionary, by the stored one or by the empty
  one when the shelf cannot be read, and leaves the current chat as it is. Below, the
  state satisfies the invariant, the load fails, the current chat "A" is no longer a key,
  and the next \<^verbatim>\<open>render_main_interface\<close> raises \<^verbatim>\<open>KeyError\<close>.
\<close>

theorem load_chat_history_dangling_pointer:
  "pointer_ok \<lparr>groq_model = DEFAULT_MODEL, conversations = [(''A'', [])],
      current_chat = Some ''A'', api_error = None,
      db = [''conversations'' \<mapsto> [(''A'', [])]]\<rparr> \<and>
   load_chat_history False
     \<lparr>groq_model = DEFAULT_MODEL, conversations = [(''A'', [])], current_chat = Some ''A'',
      api_error = None, db = [''conversations'' \<mapsto> [(''A'', [])]]\<rparr>
   = \<lparr>groq_model = DEFAULT_MODEL, conversations = [], current_chat = Some ''A'',
      api_error = None, db = [''conversations'' \<mapsto> [(''A'', [])]]\<rparr> \<and>
   \<not> pointer_ok (load_chat_history False
     \<lparr>groq_model = DEFAULT_MODEL, conversations = [(''A'', [])], current_chat = Some ''A'',
      api_error = None, db = [''conversations'' \<mapsto> [(''A'', [])]]\<rparr>) \<and>
   render_main_interface True True cl prompt (load_chat_history False
     \<lparr>groq_model = DEFAULT_MODEL, conversations = [(''A'', [])], current_chat = Some ''A'',
      api_error = None, db = [''conversations'' \<mapsto> [(''A'', [])]]\<rparr>)
   = Inl (KeyError (Some ''A''))"
  by (simp add: pointer_ok_def load_chat_history_def has_key_def truthy_def Let_def
        render_main_interface_def getitem_def)

end
